theory Spec2Isabelle
  imports Complex_Main "HOL-Library.Sublist"
begin

section \<open>Conventions\<close>

text \<open>
  A shallow embedding of the sentiment fusion and crisis escalation pipeline of the
  mental-health chatbot: \<^verbatim>\<open>src/chatbot/crisis_handler.py\<close>, \<^verbatim>\<open>src/hf_config.py\<close>,
  \<^verbatim>\<open>src/sentiment/analyzer.py\<close>, \<^verbatim>\<open>src/hybrid_chatbot.py\<close>,
  \<^verbatim>\<open>src/chatbot/session_manager.py\<close> and \<^verbatim>\<open>src/database/user_manager.py\<close>.

  \<^item> A Python \<^verbatim>\<open>str\<close> is a \<^typ>\<open>string\<close>; the texts are taken to be ASCII, so that
    \<^verbatim>\<open>str.lower\<close> acts on each character alone and a regular expression's word characters
    are the ASCII letters, the digits and the underscore.
  \<^item> A Python \<^verbatim>\<open>float\<close> is a \<^typ>\<open>real\<close>: scores, weights and thresholds are the
    numbers that the literals of the source denote, and rounding is not part of the model.
  \<^item> A value that may be \<^verbatim>\<open>None\<close> (a \<^verbatim>\<open>dict.get\<close> of a missing key, a nullable
    column) is an \<^typ>\<open>'a option\<close>; an uncaught exception is the \<open>Inl\<close> of a sum.
\<close>

section \<open>Strings\<close>

text \<open>\<^verbatim>\<open>str.lower\<close> on ASCII: the letters A (65) to Z (90) get bit 5 set, which adds 32.\<close>

definition lower_char :: "char \<Rightarrow> char" where
  "lower_char c =
     (if 65 \<le> (of_char c :: nat) \<and> (of_char c :: nat) \<le> 90
      then (case c of Char b0 b1 b2 b3 b4 b5 b6 b7 \<Rightarrow> Char b0 b1 b2 b3 b4 True b6 b7)
      else c)"

definition lower :: "string \<Rightarrow> string" where
  "lower s = map lower_char s"

text \<open>The operator \<^verbatim>\<open>k in t\<close> on two strings: \<open>k\<close> occurs in \<open>t\<close> as a contiguous substring.\<close>

fun py_in :: "string \<Rightarrow> string \<Rightarrow> bool" where
  "py_in k [] = (k = [])"
| "py_in k (c # cs) = (prefix k (c # cs) \<or> py_in k cs)"

text \<open>
  Case-insensitive containment, stated on the original text: some contiguous piece of the
  text lowercases to the keyword.
\<close>

definition contains_ci :: "string \<Rightarrow> string \<Rightarrow> bool" where
  "contains_ci k t = (\<exists>mid. sublist mid t \<and> lower mid = k)"

section \<open>Crisis handler\<close>

text \<open>\<^verbatim>\<open>CRISIS_KEYWORDS\<close> of \<^verbatim>\<open>src/hf_config.py\<close>.\<close>

definition CRISIS_KEYWORDS :: "string list" where
  "CRISIS_KEYWORDS =
     [''kill myself'', ''suicide'', ''want to die'', ''no point living'',
      ''end it all'', ''hurt myself'', ''self harm'', ''overdose'',
      ''jump'', ''harm'', ''death'', ''dying'', ''dead'']"

text \<open>
  The keyword table is duck-typed: \<^verbatim>\<open>detect_crisis\<close> asks \<^verbatim>\<open>isinstance(..., dict)\<close>.
  A dict is the list of its items, in insertion order.
\<close>

datatype keyword_table = KeywordList "string list" | KeywordDict "(string \<times> real) list"

record CrisisHandler =
  crisis_threshold :: real
  crisis_keywords :: keyword_table

text \<open>\<^verbatim>\<open>CrisisHandler.__init__\<close>\<close>

definition CrisisHandler_init :: CrisisHandler where
  "CrisisHandler_init =
     \<lparr>crisis_threshold = 0.80, crisis_keywords = KeywordList CRISIS_KEYWORDS\<rparr>"

text \<open>
  The two loops of \<^verbatim>\<open>detect_crisis\<close>; the loop state is
  \<^verbatim>\<open>(found_keywords, max_severity)\<close>.
\<close>

fun scan_dict ::
  "string \<Rightarrow> (string \<times> real) list \<Rightarrow> (string \<times> real) list \<times> real
    \<Rightarrow> (string \<times> real) list \<times> real" where
  "scan_dict text_lower [] st = st"
| "scan_dict text_lower ((keyword, severity) # rest) (found_keywords, max_severity) =
     (if py_in keyword text_lower
      then scan_dict text_lower rest
             (found_keywords @ [(keyword, severity)], max max_severity severity)
      else scan_dict text_lower rest (found_keywords, max_severity))"

fun scan_list ::
  "string \<Rightarrow> string list \<Rightarrow> (string \<times> real) list \<times> real
    \<Rightarrow> (string \<times> real) list \<times> real" where
  "scan_list text_lower [] st = st"
| "scan_list text_lower (keyword # rest) (found_keywords, max_severity) =
     (if py_in keyword text_lower
      then scan_list text_lower rest (found_keywords @ [(keyword, 0.9)], 0.9)
      else scan_list text_lower rest (found_keywords, max_severity))"

definition detect_crisis ::
  "CrisisHandler \<Rightarrow> string \<Rightarrow> real \<Rightarrow> bool \<times> real \<times> (string \<times> real) list" where
  "detect_crisis self text sentiment_score =
     (let text_lower = lower text;
          (found_keywords, max_severity) =
             (case crisis_keywords self of
                KeywordDict d \<Rightarrow> scan_dict text_lower d ([], 0)
              | KeywordList l \<Rightarrow> scan_list text_lower l ([], 0));
          max_severity =
             (if sentiment_score < - 0.7 \<and> found_keywords \<noteq> []
              then min 1.0 (max_severity + 0.1) else max_severity);
          is_crisis = (max_severity \<ge> crisis_threshold self)
      in (is_crisis, max_severity, found_keywords))"

text \<open>
  \<^verbatim>\<open>format_crisis_response\<close> returns one of three fixed texts, which differ in their first
  line only; the text is represented by the tier that selects it.
\<close>

datatype urgency = IMMEDIATE_SUPPORT_NEEDED | URGENT_SUPPORT_RECOMMENDED | SUPPORT_AVAILABLE

definition format_crisis_response :: "real \<Rightarrow> (string \<times> real) list \<Rightarrow> urgency" where
  "format_crisis_response severity_level keywords_found =
     (if severity_level \<ge> 0.90 then IMMEDIATE_SUPPORT_NEEDED
      else if severity_level \<ge> 0.85 then URGENT_SUPPORT_RECOMMENDED
      else SUPPORT_AVAILABLE)"

definition get_crisis_response ::
  "CrisisHandler \<Rightarrow> string \<Rightarrow> real \<Rightarrow> bool \<times> urgency option" where
  "get_crisis_response self text sentiment_score =
     (case detect_crisis self text sentiment_score of
        (crisis, severity, keywords) \<Rightarrow>
          if crisis then (True, Some (format_crisis_response severity keywords))
          else (False, None))"

text \<open>
  The keywords of a table that occur in a text, each with its weight: the weight of every
  keyword of a list is 0.9.
\<close>

fun matched_keywords :: "keyword_table \<Rightarrow> string \<Rightarrow> (string \<times> real) list" where
  "matched_keywords (KeywordDict d) t = filter (\<lambda>(k, w). py_in k t) d"
| "matched_keywords (KeywordList l) t = map (\<lambda>k. (k, 0.9)) (filter (\<lambda>k. py_in k t) l)"

fun weights_nonneg :: "keyword_table \<Rightarrow> bool" where
  "weights_nonneg (KeywordDict d) = list_all (\<lambda>(k, w). 0 \<le> w) d"
| "weights_nonneg (KeywordList l) = True"

section \<open>Sentiment analyzer\<close>

datatype EmotionCategory =
  VERY_NEGATIVE | NEGATIVE | SLIGHTLY_NEGATIVE | NEUTRAL
  | SLIGHTLY_POSITIVE | POSITIVE | VERY_POSITIVE

text \<open>The \<^verbatim>\<open>.value\<close> of a member of the enumeration.\<close>

fun EmotionCategory_value :: "EmotionCategory \<Rightarrow> string" where
  "EmotionCategory_value VERY_NEGATIVE = ''very_negative''"
| "EmotionCategory_value NEGATIVE = ''negative''"
| "EmotionCategory_value SLIGHTLY_NEGATIVE = ''slightly_negative''"
| "EmotionCategory_value NEUTRAL = ''neutral''"
| "EmotionCategory_value SLIGHTLY_POSITIVE = ''slightly_positive''"
| "EmotionCategory_value POSITIVE = ''positive''"
| "EmotionCategory_value VERY_POSITIVE = ''very_positive''"

datatype CrisisSeverity = CRITICAL | HIGH | MODERATE | NONE

fun CrisisSeverity_value :: "CrisisSeverity \<Rightarrow> string" where
  "CrisisSeverity_value CRITICAL = ''critical''"
| "CrisisSeverity_value HIGH = ''high''"
| "CrisisSeverity_value MODERATE = ''moderate''"
| "CrisisSeverity_value NONE = ''none''"

text \<open>The keyword lists of \<^verbatim>\<open>MentalHealthKeywords\<close>.\<close>

definition CRISIS_PHRASES :: "string list" where
  "CRISIS_PHRASES =
     [''i want to hurt myself'', ''i want to die'', ''i'm suicidal'', ''i am suicidal'',
      ''suicidal thoughts'', ''suicide'', ''kill myself'', ''end my life'',
      ''no point living'', ''life not worth living'', ''better off dead'',
      ''don't want to live'', ''wish i was dead'']"

definition SELF_HARM_KEYWORDS :: "string list" where
  "SELF_HARM_KEYWORDS =
     [''cutting myself'', ''self-harm'', ''self harm'', ''overdose'', ''hanging'',
      ''jumping off'', ''drowning'', ''slitting wrists'', ''razor blade'', ''cutting'',
      ''harming myself'', ''hurt myself'']"

definition STRESS_KEYWORDS :: "string list" where
  "STRESS_KEYWORDS =
     [''stressed'', ''anxious'', ''anxiety'', ''worried'', ''nervous'',
      ''overwhelmed'', ''panic'', ''panicking'', ''afraid'', ''scared'', ''tension'',
      ''tense'', ''uneasy'', ''agitated'', ''frantic'']"

definition DEPRESSION_KEYWORDS :: "string list" where
  "DEPRESSION_KEYWORDS =
     [''depressed'', ''depression'', ''sad'', ''sadness'', ''unhappy'',
      ''hopeless'', ''hopelessness'', ''worthless'', ''empty'', ''meaningless'', ''lost'',
      ''gloomy'', ''melancholy'', ''miserable'', ''down'', ''low'']"

definition POSITIVE_KEYWORDS :: "string list" where
  "POSITIVE_KEYWORDS =
     [''happy'', ''joyful'', ''good'', ''great'', ''wonderful'', ''amazing'',
      ''grateful'', ''blessed'', ''hopeful'', ''confident'', ''peaceful'',
      ''excited'', ''proud'', ''loved'', ''supported'']"

text \<open>
  What the analyzer does besides returning: the warnings it logs and the calls it makes to
  the two polarity scorers (VADER and TextBlob), in order.
\<close>

datatype event =
  Warn_invalid_input
  | Warn_crisis_indicator string
  | Warn_self_harm_indicator string
  | Vader_call string
  | TextBlob_call string

text \<open>A \<^verbatim>\<open>for\<close> loop over a list that returns at the first element contained in the text.\<close>

fun first_contained :: "string list \<Rightarrow> string \<Rightarrow> string option" where
  "first_contained [] text = None"
| "first_contained (phrase # rest) text =
     (if py_in phrase text then Some phrase else first_contained rest text)"

definition detect_crisis_indicators ::
  "string \<Rightarrow> (bool \<times> CrisisSeverity) \<times> event list" where
  "detect_crisis_indicators text =
     (if text = [] then ((False, NONE), [])
      else case first_contained CRISIS_PHRASES text of
             Some phrase \<Rightarrow> ((True, CRITICAL), [Warn_crisis_indicator phrase])
           | None \<Rightarrow>
               (case first_contained SELF_HARM_KEYWORDS text of
                  Some keyword \<Rightarrow> ((True, CRITICAL), [Warn_self_harm_indicator keyword])
                | None \<Rightarrow> ((False, NONE), [])))"

text \<open>
  The regular expression \<^verbatim>\<open>\b\<close> holds between two neighbouring positions when exactly one
  of them is a word character; the outside of the string counts as a non-word character.
\<close>

definition is_word_char :: "char \<Rightarrow> bool" where
  "is_word_char c =
     (let n = (of_char c :: nat)
      in (48 \<le> n \<and> n \<le> 57) \<or> (65 \<le> n \<and> n \<le> 90) \<or> (97 \<le> n \<and> n \<le> 122) \<or> n = 95)"

fun is_word :: "char option \<Rightarrow> bool" where
  "is_word None = False"
| "is_word (Some c) = is_word_char c"

definition word_boundary :: "char option \<Rightarrow> char option \<Rightarrow> bool" where
  "word_boundary before after = (is_word before \<noteq> is_word after)"

fun first_char :: "string \<Rightarrow> char option" where
  "first_char [] = None"
| "first_char (c # cs) = Some c"

text \<open>
  The pattern \<^verbatim>\<open>r'\b' + re.escape(kw) + r'\b'\<close> matched at one position: \<open>before\<close> is the
  character in front of the position and \<open>rest\<close> the text from it on.
\<close>

definition match_here :: "char option \<Rightarrow> string \<Rightarrow> string \<Rightarrow> bool" where
  "match_here before kw rest =
     (word_boundary before (first_char rest) \<and> prefix kw rest \<and>
      word_boundary (if kw = [] then before else Some (last kw))
        (first_char (drop (length kw) rest)))"

text \<open>\<^verbatim>\<open>re.search\<close> tries every position of the text, from the left.\<close>

fun re_search_word :: "char option \<Rightarrow> string \<Rightarrow> string \<Rightarrow> bool" where
  "re_search_word before kw [] = match_here before kw []"
| "re_search_word before kw (c # cs) =
     (match_here before kw (c # cs) \<or> re_search_word (Some c) kw cs)"

fun has_keyword :: "string \<Rightarrow> string list \<Rightarrow> bool" where
  "has_keyword text [] = False"
| "has_keyword text (kw # keywords) =
     (if re_search_word None kw text then True else has_keyword text keywords)"

record mental_state =
  stress_indicators :: bool
  depression_indicators :: bool
  positive_indicators :: bool
  self_harm_indicators :: bool

definition detect_mental_state :: "string \<Rightarrow> mental_state" where
  "detect_mental_state text =
     \<lparr>stress_indicators = has_keyword text STRESS_KEYWORDS,
      depression_indicators = has_keyword text DEPRESSION_KEYWORDS,
      positive_indicators = has_keyword text POSITIVE_KEYWORDS,
      self_harm_indicators = list_ex (\<lambda>kw. py_in kw text) SELF_HARM_KEYWORDS\<rparr>"

text \<open>The VADER scores are a dict; \<^verbatim>\<open>vader_scores.get('compound', 0)\<close> reads it.\<close>

definition combine_sentiment_scores :: "(string \<rightharpoonup> real) \<Rightarrow> real \<Rightarrow> real" where
  "combine_sentiment_scores vader_scores textblob_polarity =
     (let vader_compound = (case vader_scores ''compound'' of None \<Rightarrow> 0 | Some c \<Rightarrow> c);
          textblob_score = textblob_polarity;
          combined = (vader_compound * 0.6) + (textblob_score * 0.4)
      in max (- 1.0) (min 1.0 combined))"

text \<open>The compound score of the VADER result, 0 when the key is missing.\<close>

definition compound_of :: "(string \<rightharpoonup> real) \<Rightarrow> real" where
  "compound_of scores = (case scores ''compound'' of None \<Rightarrow> 0 | Some c \<Rightarrow> c)"

definition categorize_emotion :: "real \<Rightarrow> EmotionCategory" where
  "categorize_emotion sentiment_score =
     (if sentiment_score \<le> - 0.75 then VERY_NEGATIVE
      else if sentiment_score \<le> - 0.25 then NEGATIVE
      else if sentiment_score \<le> - 0.05 then SLIGHTLY_NEGATIVE
      else if sentiment_score \<le> 0.05 then NEUTRAL
      else if sentiment_score \<le> 0.25 then SLIGHTLY_POSITIVE
      else if sentiment_score \<le> 0.75 then POSITIVE
      else VERY_POSITIVE)"

text \<open>The place of a category on the scale from the most negative to the most positive.\<close>

fun rank :: "EmotionCategory \<Rightarrow> nat" where
  "rank VERY_NEGATIVE = 0"
| "rank NEGATIVE = 1"
| "rank SLIGHTLY_NEGATIVE = 2"
| "rank NEUTRAL = 3"
| "rank SLIGHTLY_POSITIVE = 4"
| "rank POSITIVE = 5"
| "rank VERY_POSITIVE = 6"

definition get_emotion_intensity :: "real \<Rightarrow> real" where
  "get_emotion_intensity sentiment_score = \<bar>sentiment_score\<bar>"

record sentiment_result =
  raw_text :: string
  text_normalized :: string
  vader_scores :: "string \<rightharpoonup> real"
  textblob_polarity :: real
  combined_sentiment_score :: real
  emotion_category :: string
  emotion_intensity :: real
  mental_state_detected :: mental_state
  crisis_detected :: bool
  crisis_severity :: string
  analysis_timestamp :: string

definition get_default_sentiment :: "string \<Rightarrow> sentiment_result" where
  "get_default_sentiment now =
     \<lparr>raw_text = [],
      text_normalized = [],
      vader_scores = [''compound'' \<mapsto> 0, ''pos'' \<mapsto> 0, ''neu'' \<mapsto> 1, ''neg'' \<mapsto> 0],
      textblob_polarity = 0,
      combined_sentiment_score = 0,
      emotion_category = EmotionCategory_value NEUTRAL,
      emotion_intensity = 0,
      mental_state_detected =
        \<lparr>stress_indicators = False, depression_indicators = False,
         positive_indicators = False, self_harm_indicators = False\<rparr>,
      crisis_detected = False,
      crisis_severity = CrisisSeverity_value NONE,
      analysis_timestamp = now\<rparr>"

text \<open>
  The argument of \<^verbatim>\<open>analyze_sentiment\<close> is any Python value: the function tests its truth
  value and its type itself.
\<close>

datatype py_value =
  PyNone | PyStr string | PyBool bool | PyInt int | PyFloat real | PyList "py_value list"

fun truthy :: "py_value \<Rightarrow> bool" where
  "truthy PyNone = False"
| "truthy (PyStr s) = (s \<noteq> [])"
| "truthy (PyBool b) = b"
| "truthy (PyInt i) = (i \<noteq> 0)"
| "truthy (PyFloat x) = (x \<noteq> 0)"
| "truthy (PyList xs) = (xs \<noteq> [])"

fun isinstance_str :: "py_value \<Rightarrow> bool" where
  "isinstance_str (PyStr s) = True"
| "isinstance_str v = False"

text \<open>The characters of a value that is a \<^verbatim>\<open>str\<close> (read only after the type test).\<close>

fun str_of :: "py_value \<Rightarrow> string" where
  "str_of (PyStr s) = s"
| "str_of v = []"

text \<open>\<^verbatim>\<open>str.strip\<close>: the ASCII characters that Python counts as whitespace.\<close>

definition is_space :: "char \<Rightarrow> bool" where
  "is_space c = (let n = (of_char c :: nat) in (9 \<le> n \<and> n \<le> 13) \<or> (28 \<le> n \<and> n \<le> 32))"

definition strip :: "string \<Rightarrow> string" where
  "strip s = rev (dropWhile is_space (rev (dropWhile is_space s)))"

text \<open>
  The two scorers are the libraries' (\<^verbatim>\<open>self.vader.polarity_scores\<close> and
  \<^verbatim>\<open>TextBlob(text).sentiment.polarity\<close>) and the timestamp is the clock's: all three are
  parameters. The result comes with the events of the call, in order.
\<close>

definition analyze_sentiment ::
  "(string \<Rightarrow> (string \<rightharpoonup> real)) \<Rightarrow> (string \<Rightarrow> real) \<Rightarrow> string \<Rightarrow> py_value
    \<Rightarrow> sentiment_result \<times> event list" where
  "analyze_sentiment polarity_scores textblob now v =
     (if \<not> truthy v \<or> \<not> isinstance_str v
      then (get_default_sentiment now, [Warn_invalid_input])
      else
        let text = str_of v;
            text_lower = strip (lower text);
            ((crisis, severity), warnings) = detect_crisis_indicators text_lower;
            vader_result = polarity_scores text;
            polarity = textblob text;
            combined_score = combine_sentiment_scores vader_result polarity;
            mental_state = detect_mental_state text_lower;
            category = categorize_emotion combined_score
        in (\<lparr>raw_text = text,
             text_normalized = text_lower,
             vader_scores = vader_result,
             textblob_polarity = polarity,
             combined_sentiment_score = combined_score,
             emotion_category = EmotionCategory_value category,
             emotion_intensity = get_emotion_intensity combined_score,
             mental_state_detected = mental_state,
             crisis_detected = crisis,
             crisis_severity = CrisisSeverity_value severity,
             analysis_timestamp = now\<rparr>,
            warnings @ [Vader_call text, TextBlob_call text]))"

section \<open>Response orchestrator\<close>

text \<open>
  The result of the emotion classifier (\<^verbatim>\<open>classify_emotion\<close>), an external model; of its
  dict, the orchestrator reads \<^verbatim>\<open>primary_emotion\<close> and \<^verbatim>\<open>confidence\<close>.
\<close>

record emotion_result =
  primary_emotion :: string
  confidence :: real

definition topic_keywords :: "(string \<times> string list) list" where
  "topic_keywords =
     [(''exam'', [''exam'', ''test'', ''quiz'', ''midterm'', ''final'', ''exam score'',
                  ''studied'']),
      (''job'', [''job'', ''work'', ''interview'', ''boss'', ''colleague'', ''promotion'',
                 ''fired'', ''resign'', ''workplace'']),
      (''relationship'', [''girlfriend'', ''boyfriend'', ''wife'', ''husband'', ''partner'',
                          ''spouse'', ''dating'', ''breakup'', ''relationship'']),
      (''family'', [''mom'', ''dad'', ''parent'', ''mother'', ''father'', ''sibling'',
                    ''brother'', ''sister'', ''family'']),
      (''health'', [''sick'', ''illness'', ''disease'', ''pain'', ''hurt'', ''doctor'',
                    ''hospital'', ''health'']),
      (''money'', [''money'', ''debt'', ''financial'', ''broke'', ''bills'', ''rent'',
                   ''mortgage'']),
      (''social'', [''friends'', ''friend'', ''lonely'', ''alone'', ''social'', ''people'',
                    ''community'']),
      (''school'', [''school'', ''class'', ''grade'', ''teacher'', ''homework'',
                    ''assignment''])]"

fun scan_topics :: "(string \<times> string list) list \<Rightarrow> string \<Rightarrow> string" where
  "scan_topics [] message_lower = ''general''"
| "scan_topics ((topic, keywords) # rest) message_lower =
     (if list_ex (\<lambda>keyword. py_in keyword message_lower) keywords then topic
      else scan_topics rest message_lower)"

definition extract_topic :: "string \<Rightarrow> string" where
  "extract_topic user_message = scan_topics topic_keywords (lower user_message)"

definition match_emotion_precisely :: "string \<Rightarrow> string \<Rightarrow> string" where
  "match_emotion_precisely detected_emotion user_message =
     (let message_lower = lower user_message in
      if py_in ''anxious'' message_lower \<or> py_in ''anxiety'' message_lower then ''anxiety''
      else if py_in ''sad'' message_lower \<or> py_in ''sadness'' message_lower
              \<or> py_in ''depressed'' message_lower then ''sadness''
      else if py_in ''angry'' message_lower \<or> py_in ''frustrated'' message_lower
      then ''anger''
      else if py_in ''scared'' message_lower \<or> py_in ''afraid'' message_lower
              \<or> py_in ''fear'' message_lower then ''fear''
      else if py_in ''happy'' message_lower \<or> py_in ''great'' message_lower
              \<or> py_in ''excited'' message_lower then ''joy''
      else if detected_emotion \<noteq> [] then detected_emotion else ''neutral'')"

text \<open>
  A response is either the crisis text of a tier or the text of the generative model.
\<close>

datatype bot_response = Crisis_text urgency | Generated_text string

text \<open>
  The collaborators that \<^verbatim>\<open>HybridMentalHealthChatbot.__init__\<close> builds: the classifier, the
  two scorers of the sentiment analyzer and the generator are external models and are
  functions here; the crisis handler is the one above.
\<close>

record HybridMentalHealthChatbot =
  classify_emotion :: "string \<Rightarrow> emotion_result"
  polarity_scores :: "string \<Rightarrow> (string \<rightharpoonup> real)"
  textblob :: "string \<Rightarrow> real"
  generate_response :: "string \<Rightarrow> string \<Rightarrow> string \<Rightarrow> string"
  crisis_handler :: CrisisHandler

text \<open>The row that \<^verbatim>\<open>save_conversation\<close> inserts into the table \<^verbatim>\<open>conversations\<close>.\<close>

record conversation_row =
  row_user_id :: string
  row_user_message :: string
  row_bot_response :: "bot_response option"
  row_emotion :: string
  row_emotion_confidence :: real
  row_sentiment_score :: real
  row_is_crisis :: int
  row_timestamp :: string

definition save_conversation ::
  "string \<Rightarrow> string \<Rightarrow> string \<Rightarrow> bot_response option \<Rightarrow> emotion_result
    \<Rightarrow> sentiment_result \<Rightarrow> conversation_row" where
  "save_conversation now user_id user_message response emotion sentiment =
     \<lparr>row_user_id = user_id,
      row_user_message = user_message,
      row_bot_response = response,
      row_emotion = primary_emotion emotion,
      row_emotion_confidence = confidence emotion,
      row_sentiment_score = combined_sentiment_score sentiment,
      row_is_crisis = (if crisis_detected sentiment then 1 else 0),
      row_timestamp = now\<rparr>"

record chatbot_result =
  response :: "bot_response option"
  emotion :: string
  emotion_confidence :: real
  sentiment :: sentiment_result
  is_crisis :: bool

text \<open>
  \<^verbatim>\<open>process_user_message\<close>, with the row it stores. The variable \<^verbatim>\<open>response\<close> is the
  second component of \<^verbatim>\<open>get_crisis_response\<close> in a crisis, which may be \<^verbatim>\<open>None\<close> by its
  type, and the generated text otherwise.
\<close>

definition process_user_message ::
  "HybridMentalHealthChatbot \<Rightarrow> string \<Rightarrow> string \<Rightarrow> string
    \<Rightarrow> chatbot_result \<times> conversation_row" where
  "process_user_message self now user_id user_message =
     (let emotion_res = classify_emotion self user_message;
          detected_emotion = primary_emotion emotion_res;
          sentiment_res =
            fst (analyze_sentiment (polarity_scores self) (textblob self) now
                   (PyStr user_message));
          sentiment_score = combined_sentiment_score sentiment_res;
          topic = extract_topic user_message;
          precise_emotion = match_emotion_precisely detected_emotion user_message;
          (crisis, crisis_response) =
            get_crisis_response (crisis_handler self) user_message sentiment_score;
          reply =
            (if crisis then map_option Crisis_text crisis_response
             else Some (Generated_text
                          (generate_response self user_message precise_emotion topic)))
      in (\<lparr>response = reply,
           emotion = precise_emotion,
           emotion_confidence = confidence emotion_res,
           sentiment = sentiment_res,
           is_crisis = crisis\<rparr>,
          save_conversation now user_id user_message reply emotion_res sentiment_res))"

section \<open>Session and mood tracker\<close>

datatype py_error = TypeError

text \<open>
  The argument of \<^verbatim>\<open>record_mood\<close> is a dict, read with \<^verbatim>\<open>dict.get\<close> at four keys: each
  field is what \<^verbatim>\<open>mood_data.get\<close> returns at that key, \<open>None\<close> when the key is missing.
\<close>

record mood_data =
  get_emotion_category :: "string option"
  get_combined_sentiment_score :: "real option"
  get_crisis_detected :: "bool option"
  get_mental_state_detected :: "mental_state option"

text \<open>
  A snapshot of the mood log; the keys \<^verbatim>\<open>timestamp\<close>, \<^verbatim>\<open>emotion_category\<close>,
  \<^verbatim>\<open>sentiment_score\<close>, \<^verbatim>\<open>crisis_detected\<close> and \<^verbatim>\<open>mental_state\<close> carry the prefix
  \<open>mood_\<close>, since the sentiment result has fields of the same names.
\<close>

record mood_entry =
  mood_timestamp :: string
  mood_emotion_category :: "string option"
  mood_sentiment_score :: "real option"
  mood_crisis_detected :: "bool option"
  mood_mental_state :: "mental_state option"

record message =
  role :: string
  content :: string
  timestamp :: string
  metadata :: "(string \<times> string) list"

record UserSession =
  session_id :: string
  user_id :: string
  created_at :: string
  updated_at :: string
  conversation_history :: "message list"
  mood_log :: "mood_entry list"
  initial_mood :: "mood_entry option"
  current_mood :: "mood_entry option"
  session_active :: bool

text \<open>\<^verbatim>\<open>UserSession.__init__\<close>, with the identifiers and the clock's time given.\<close>

definition UserSession_init :: "string \<Rightarrow> string \<Rightarrow> string \<Rightarrow> UserSession" where
  "UserSession_init sid uid now =
     \<lparr>session_id = sid, user_id = uid, created_at = now, updated_at = now,
      conversation_history = [], mood_log = [], initial_mood = None, current_mood = None,
      session_active = True\<rparr>"

definition add_message ::
  "string \<Rightarrow> string \<Rightarrow> string \<Rightarrow> (string \<times> string) list \<Rightarrow> UserSession \<Rightarrow> UserSession" where
  "add_message now r c m self =
     self\<lparr>conversation_history :=
            conversation_history self @
              [\<lparr>role = r, content = c, timestamp = now, metadata = m\<rparr>],
          updated_at := now\<rparr>"

definition record_mood :: "string \<Rightarrow> mood_data \<Rightarrow> UserSession \<Rightarrow> UserSession" where
  "record_mood now data self =
     (let entry =
            \<lparr>mood_timestamp = now,
             mood_emotion_category = get_emotion_category data,
             mood_sentiment_score = get_combined_sentiment_score data,
             mood_crisis_detected = get_crisis_detected data,
             mood_mental_state = get_mental_state_detected data\<rparr>;
          self = self\<lparr>mood_log := mood_log self @ [entry]\<rparr>;
          self = (if initial_mood self = None then self\<lparr>initial_mood := Some entry\<rparr>
                  else self)
      in self\<lparr>current_mood := Some entry\<rparr>)"

text \<open>
  The two dicts that \<^verbatim>\<open>get_mood_change\<close> returns: \<^verbatim>\<open>{'change', 'improved'}\<close>, and
  \<^verbatim>\<open>{'initial_mood', 'current_mood', 'sentiment_change', 'improved', 'messages_count'}\<close>.
\<close>

datatype mood_change =
  No_mood int bool
  | Mood_change "string option" "string option" real bool nat

text \<open>
  The subtraction of two values that may be \<^verbatim>\<open>None\<close>: Python raises \<^verbatim>\<open>TypeError\<close> unless
  both are numbers.
\<close>

fun py_sub :: "real option \<Rightarrow> real option \<Rightarrow> py_error + real" where
  "py_sub (Some a) (Some b) = Inr (a - b)"
| "py_sub a b = Inl TypeError"

text \<open>
  A snapshot is a dict of five keys and so is true whenever it is there. The key
  \<^verbatim>\<open>sentiment_score\<close> is always in it, so \<^verbatim>\<open>.get('sentiment_score', 0)\<close> returns the stored
  value, also when that is \<^verbatim>\<open>None\<close>.
\<close>

definition get_mood_change :: "UserSession \<Rightarrow> py_error + mood_change" where
  "get_mood_change self =
     (case (initial_mood self, current_mood self) of
        (Some initial, Some current) \<Rightarrow>
          (let initial_score = mood_sentiment_score initial;
               current_score = mood_sentiment_score current
           in case py_sub current_score initial_score of
                Inl e \<Rightarrow> Inl e
              | Inr change \<Rightarrow>
                  Inr (Mood_change (mood_emotion_category initial)
                         (mood_emotion_category current) change (change > 0)
                         (length (conversation_history self))))
      | _ \<Rightarrow> Inr (No_mood 0 False))"

text \<open>A sequence of \<^verbatim>\<open>record_mood\<close> calls, each with the time of the call.\<close>

fun record_moods :: "(string \<times> mood_data) list \<Rightarrow> UserSession \<Rightarrow> UserSession" where
  "record_moods [] self = self"
| "record_moods ((now, data) # calls) self = record_moods calls (record_mood now data self)"

text \<open>The snapshot that a call records.\<close>

definition snapshot :: "string \<times> mood_data \<Rightarrow> mood_entry" where
  "snapshot call =
     \<lparr>mood_timestamp = fst call,
      mood_emotion_category = get_emotion_category (snd call),
      mood_sentiment_score = get_combined_sentiment_score (snd call),
      mood_crisis_detected = get_crisis_detected (snd call),
      mood_mental_state = get_mental_state_detected (snd call)\<rparr>"

section \<open>Chat sessions of the user manager\<close>

text \<open>
  A row of the table \<^verbatim>\<open>chat_sessions\<close>; every column but \<^verbatim>\<open>user_id\<close> and
  \<^verbatim>\<open>session_start\<close> may be \<^verbatim>\<open>NULL\<close>. The table is a map from the \<^verbatim>\<open>id\<close> to the row.
\<close>

record chat_session =
  owner_user_id :: string
  session_start :: string
  session_end :: "string option"
  initial_emotion :: "string option"
  initial_sentiment :: "real option"
  final_emotion :: "string option"
  final_sentiment :: "real option"
  mood_improvement :: "real option"
  message_count :: int

record session_end_result =
  improvement :: real
  improved :: bool
  stable :: bool
  declined :: bool

text \<open>
  \<^verbatim>\<open>end_chat_session\<close>, on a database whose operations succeed. The sentiments are numbers
  or \<^verbatim>\<open>None\<close>; the \<^verbatim>\<open>TypeError\<close> of the subtraction is caught by the \<^verbatim>\<open>except\<close> clause,
  which returns \<^verbatim>\<open>None\<close> before anything is written. When no row is found the function
  falls off its end and returns \<^verbatim>\<open>None\<close> as well.
\<close>

definition end_chat_session ::
  "(int \<rightharpoonup> chat_session) \<Rightarrow> string \<Rightarrow> int \<Rightarrow> string option \<Rightarrow> real option
    \<Rightarrow> (int \<rightharpoonup> chat_session) \<times> session_end_result option" where
  "end_chat_session db now sid emotion_at_end sentiment_at_end =
     (case db sid of
        None \<Rightarrow> (db, None)
      | Some row \<Rightarrow>
          (case py_sub sentiment_at_end (initial_sentiment row) of
             Inl e \<Rightarrow> (db, None)
           | Inr delta \<Rightarrow>
               (db(sid \<mapsto> row\<lparr>session_end := Some now,
                              final_emotion := emotion_at_end,
                              final_sentiment := sentiment_at_end,
                              mood_improvement := Some delta\<rparr>),
                Some \<lparr>improvement = delta,
                      improved = (delta > 0.1),
                      stable = (- 0.1 \<le> delta \<and> delta \<le> 0.1),
                      declined = (delta < - 0.1)\<rparr>)))"

text \<open>\<^verbatim>\<open>start_chat_session\<close>: the new row gets the next \<^verbatim>\<open>id\<close>.\<close>

definition start_chat_session ::
  "(int \<rightharpoonup> chat_session) \<Rightarrow> string \<Rightarrow> int \<Rightarrow> string \<Rightarrow> string option \<Rightarrow> real option
    \<Rightarrow> (int \<rightharpoonup> chat_session) \<times> int" where
  "start_chat_session db now next_id uid emotion_at_start sentiment_at_start =
     (db(next_id \<mapsto>
           \<lparr>owner_user_id = uid, session_start = now, session_end = None,
            initial_emotion = emotion_at_start, initial_sentiment = sentiment_at_start,
            final_emotion = None, final_sentiment = None, mood_improvement = None,
            message_count = 0\<rparr>),
      next_id)"

text \<open>
  A keyword occurs in a text as a sequence of whole words: it is a piece of the text with
  no word character right in front of it and none right behind it.
\<close>

definition occurs_as_words :: "string \<Rightarrow> string \<Rightarrow> bool" where
  "occurs_as_words kw t =
     (\<exists>pre post. t = pre @ kw @ post \<and>
        (pre = [] \<or> \<not> is_word_char (last pre)) \<and>
        (post = [] \<or> \<not> is_word_char (hd post)))"

text \<open>The keywords for which the two \<^verbatim>\<open>\b\<close> of the pattern sit at the ends of words.\<close>

definition word_keyword :: "string \<Rightarrow> bool" where
  "word_keyword kw = (kw \<noteq> [] \<and> is_word_char (hd kw) \<and> is_word_char (last kw))"

section \<open>Construction of the chatbot and sample inputs\<close>

text \<open>
  \<^verbatim>\<open>HybridMentalHealthChatbot.__init__\<close>: the crisis handler is a fresh \<^verbatim>\<open>CrisisHandler()\<close>;
  the external models are given.
\<close>

definition HybridMentalHealthChatbot_init ::
  "(string \<Rightarrow> emotion_result) \<Rightarrow> (string \<Rightarrow> (string \<rightharpoonup> real)) \<Rightarrow> (string \<Rightarrow> real)
    \<Rightarrow> (string \<Rightarrow> string \<Rightarrow> string \<Rightarrow> string) \<Rightarrow> HybridMentalHealthChatbot" where
  "HybridMentalHealthChatbot_init classifier vader blob generator =
     \<lparr>classify_emotion = classifier, polarity_scores = vader, textblob = blob,
      generate_response = generator, crisis_handler = CrisisHandler_init\<rparr>"

text \<open>
  A chatbot whose external models answer the same on every message: sadness with confidence
  0.9, both polarity scores -0.5, and one generated sentence.
\<close>

definition sample_chatbot :: HybridMentalHealthChatbot where
  "sample_chatbot =
     HybridMentalHealthChatbot_init
       (\<lambda>t. \<lparr>primary_emotion = ''sadness'', confidence = 0.9\<rparr>)
       (\<lambda>t. [''compound'' \<mapsto> - 0.5]) (\<lambda>t. - 0.5) (\<lambda>m e t. ''I hear you.'')"

text \<open>
  A table of chat sessions with one session, started by \<^verbatim>\<open>start_chat_session\<close> with an
  initial sentiment that is \<^verbatim>\<open>None\<close> (the JSON \<^verbatim>\<open>null\<close> of a request).
\<close>

definition null_start_db :: "int \<rightharpoonup> chat_session" where
  "null_start_db = fst (start_chat_session Map.empty ''t0'' 1 ''u1'' (Some ''sad'') None)"

section \<open>Lemmas on strings\<close>

lemma py_in_sublist: "py_in k t = sublist k t"
  by (induction t) (auto simp: sublist_Cons_right)

lemma contains_ci_iff: "contains_ci k t = py_in k (lower t)"
proof
  assume "contains_ci k t"
  then obtain mid where "sublist mid t" and "lower mid = k"
    by (auto simp: contains_ci_def)
  then show "py_in k (lower t)"
    unfolding py_in_sublist lower_def by (auto intro: map_mono_sublist)
next
  assume "py_in k (lower t)"
  then obtain ps ss where "map lower_char t = ps @ k @ ss"
    unfolding py_in_sublist lower_def sublist_def by blast
  then obtain a r where t: "t = a @ r" and "k @ ss = map lower_char r"
    by (auto simp: map_eq_append_conv)
  then obtain b c where "r = b @ c" and "map lower_char b = k"
    by (auto simp: append_eq_map_conv)
  with t have "t = a @ b @ c" and "map lower_char b = k"
    by simp_all
  then show "contains_ci k t"
    unfolding contains_ci_def lower_def sublist_def by blast
qed

section \<open>Lemmas on the crisis handler\<close>

lemma Max_insert_max:
  "finite S \<Longrightarrow> Max (insert (max (m::real) w) S) = Max (insert m (insert w S))"
  by (cases "S = {}") (simp_all add: max.assoc)

lemma scan_dict_eq:
  "scan_dict t d (f, m) =
     (f @ matched_keywords (KeywordDict d) t,
      Max (insert m (snd ` set (matched_keywords (KeywordDict d) t))))"
proof (induction d arbitrary: f m)
  case Nil
  then show ?case by simp
next
  case (Cons a d)
  obtain k w where a: "a = (k, w)" by (cases a)
  show ?case
  proof (cases "py_in k t")
    case True
    have "Max (insert (max m w) (snd ` set (matched_keywords (KeywordDict d) t))) =
          Max (insert m (insert w (snd ` set (matched_keywords (KeywordDict d) t))))"
      by (rule Max_insert_max) simp
    with True show ?thesis by (simp add: a Cons.IH)
  next
    case False
    then show ?thesis by (simp add: a Cons.IH)
  qed
qed

lemma scan_list_eq:
  "scan_list t l (f, m) =
     (f @ matched_keywords (KeywordList l) t,
      if matched_keywords (KeywordList l) t = [] then m else 0.9)"
  by (induction l arbitrary: f m) auto

lemma matched_weights_nonneg:
  assumes "weights_nonneg kws" and "x \<in> snd ` set (matched_keywords kws t)"
  shows "0 \<le> x"
proof (cases kws)
  case (KeywordList l)
  with assms show ?thesis by auto
next
  case (KeywordDict d)
  with assms show ?thesis by (auto simp: list_all_iff)
qed

lemma Max_insert_zero:
  assumes "finite S" and "S \<noteq> {}" and "\<And>x. x \<in> S \<Longrightarrow> (0::real) \<le> x"
  shows "Max (insert 0 S) = Max S"
proof -
  have "0 \<le> Max S"
    using assms by (meson Max_in)
  with assms show ?thesis by simp
qed

lemma matched_list_Max:
  assumes ne: "matched_keywords (KeywordList l) t \<noteq> []"
  shows "Max (snd ` set (matched_keywords (KeywordList l) t)) = 0.9"
proof -
  from ne have "set (filter (\<lambda>k. py_in k t) l) \<noteq> {}"
    by (simp add: filter_empty_conv Bex_def)
  moreover have "snd ` set (matched_keywords (KeywordList l) t) =
        (\<lambda>k. 0.9::real) ` set (filter (\<lambda>k. py_in k t) l)"
    by (simp add: image_image)
  ultimately have "snd ` set (matched_keywords (KeywordList l) t) = {0.9}"
    by (simp only: image_constant_conv if_False)
  then show ?thesis by (simp only: Max_singleton)
qed

lemma scan_base:
  assumes "weights_nonneg kws"
  shows "(case kws of
            KeywordDict d \<Rightarrow> scan_dict t d ([], 0)
          | KeywordList l \<Rightarrow> scan_list t l ([], 0)) =
         (matched_keywords kws t,
          if matched_keywords kws t = [] then 0
          else Max (snd ` set (matched_keywords kws t)))"
proof (cases kws)
  case (KeywordList l)
  then show ?thesis
    using matched_list_Max [of l t] by (simp add: scan_list_eq del: matched_keywords.simps)
next
  case (KeywordDict d)
  show ?thesis
  proof (cases "matched_keywords kws t = []")
    case True
    with KeywordDict show ?thesis
      by (simp add: scan_dict_eq del: matched_keywords.simps)
  next
    case False
    have "Max (insert 0 (snd ` set (matched_keywords kws t))) =
          Max (snd ` set (matched_keywords kws t))"
    proof (rule Max_insert_zero)
      show "finite (snd ` set (matched_keywords kws t))" by simp
      show "snd ` set (matched_keywords kws t) \<noteq> {}" using False by simp
      show "\<And>x. x \<in> snd ` set (matched_keywords kws t) \<Longrightarrow> 0 \<le> x"
        using assms by (rule matched_weights_nonneg)
    qed
    with False KeywordDict show ?thesis
      by (simp add: scan_dict_eq del: matched_keywords.simps)
  qed
qed

section \<open>The weighted crisis decision\<close>

text \<open>
  Claim C2. For every text and sentiment score, \<^verbatim>\<open>detect_crisis\<close> with the threshold 0.80
  returns the keywords of the table that occur in the lowercased text, and a severity that
  is the greatest weight of these keywords (0 when there is none), raised by 0.1 and capped
  at 1.0 when the score is below -0.7 and a keyword occurs; it reports a crisis exactly when
  this severity is at least 0.80. The table is a list, whose keywords all weigh 0.9, or a
  dict of weights that are not negative.
\<close>

theorem detect_crisis_rule:
  assumes "weights_nonneg kws"
  shows "detect_crisis \<lparr>crisis_threshold = 0.80, crisis_keywords = kws\<rparr> text score =
           (let found = matched_keywords kws (lower text);
                base = (if found = [] then 0 else Max (snd ` set found));
                severity = (if score < - 0.7 \<and> found \<noteq> [] then min 1.0 (base + 0.1) else base)
            in (severity \<ge> 0.80, severity, found))"
  using scan_base [OF assms, of "lower text"]
  by (simp add: detect_crisis_def Let_def del: matched_keywords.simps)

theorem detect_crisis_rule_witness:
  "weights_nonneg (KeywordDict [(''harm'', 0.5), (''suicide'', 0.75), (''jump'', 0.25)]) \<and>
   detect_crisis
     \<lparr>crisis_threshold = 0.80,
      crisis_keywords = KeywordDict [(''harm'', 0.5), (''suicide'', 0.75), (''jump'', 0.25)]\<rparr>
     ''Harm or SUICIDE'' (- 0.8) =
   (True, 0.85, [(''harm'', 0.5), (''suicide'', 0.75)])"
proof -
  have h: "weights_nonneg (KeywordDict [(''harm'', 0.5), (''suicide'', 0.75), (''jump'', 0.25)])"
    by simp
  show ?thesis
    using h detect_crisis_rule [OF h, of "''Harm or SUICIDE''" "- 0.8"]
    by (simp add: lower_def lower_char_def Let_def)
qed

text \<open>
  Claim C10. The configured table is a list, so every keyword found weighs 0.9: for every
  text that contains a configured crisis keyword, whatever the case of its letters, and
  every sentiment score, \<^verbatim>\<open>detect_crisis\<close> reports a crisis with a severity of at least 0.9.
  The severity is 0.9, or 1.0 when the score is below -0.7.
\<close>

theorem configured_keyword_is_crisis:
  assumes "\<exists>k \<in> set CRISIS_KEYWORDS. contains_ci k text"
  shows "fst (detect_crisis CrisisHandler_init text score) \<and>
         fst (snd (detect_crisis CrisisHandler_init text score)) \<ge> 0.9 \<and>
         fst (snd (detect_crisis CrisisHandler_init text score)) =
           (if score < - 0.7 then 1.0 else 0.9) \<and>
         snd (snd (detect_crisis CrisisHandler_init text score)) \<noteq> [] \<and>
         (\<forall>kw \<in> set (snd (snd (detect_crisis CrisisHandler_init text score))). snd kw = 0.9)"
proof -
  let ?found = "matched_keywords (KeywordList CRISIS_KEYWORDS) (lower text)"
  from assms obtain k where "k \<in> set CRISIS_KEYWORDS" and "py_in k (lower text)"
    by (auto simp: contains_ci_iff)
  then have ne: "?found \<noteq> []"
    by (auto simp: filter_empty_conv)
  have w: "\<forall>kw \<in> set ?found. snd kw = 0.9"
    by auto
  have "detect_crisis CrisisHandler_init text score =
          (True, if score < - 0.7 then 1.0 else 0.9, ?found)"
    using ne by (simp add: detect_crisis_def CrisisHandler_init_def scan_list_eq
        del: matched_keywords.simps)
  with ne w show ?thesis by simp
qed

theorem configured_keyword_is_crisis_witness:
  "(\<exists>k \<in> set CRISIS_KEYWORDS. contains_ci k ''I feel DEAD inside'') \<and>
   fst (detect_crisis CrisisHandler_init ''I feel DEAD inside'' 0.5) \<and>
   fst (snd (detect_crisis CrisisHandler_init ''I feel DEAD inside'' 0.5)) = 0.9"
proof -
  have h: "\<exists>k \<in> set CRISIS_KEYWORDS. contains_ci k ''I feel DEAD inside''"
    by (simp add: CRISIS_KEYWORDS_def contains_ci_iff lower_def lower_char_def)
  show ?thesis
    using h configured_keyword_is_crisis [OF h, of "0.5"] by simp
qed

section \<open>Crisis indicators of the analyzer\<close>

lemma first_contained_eq:
  "first_contained ps text =
     (case filter (\<lambda>p. py_in p text) ps of [] \<Rightarrow> None | p # rest \<Rightarrow> Some p)"
  by (induction ps) auto

lemma first_contained_None:
  "first_contained ps text = None \<longleftrightarrow> \<not> (\<exists>p \<in> set ps. sublist p text)"
  by (induction ps) (auto simp: py_in_sublist)

lemma first_contained_Some:
  "first_contained ps text = Some p \<Longrightarrow> p = hd (filter (\<lambda>p. sublist p text) ps)"
  by (induction ps) (auto simp: py_in_sublist split: if_splits)

lemma phrases_nonempty:
  "[] \<notin> set CRISIS_PHRASES" "[] \<notin> set SELF_HARM_KEYWORDS"
  by (simp_all add: CRISIS_PHRASES_def SELF_HARM_KEYWORDS_def)

lemma sublist_of_empty: "[] \<notin> set ps \<Longrightarrow> \<not> (\<exists>p \<in> set ps. sublist p [])"
  by auto

text \<open>
  Claim C3. For every lowercased text, \<^verbatim>\<open>_detect_crisis_indicators\<close> checks the crisis
  phrases first, by substring containment: when a phrase is contained, the result is
  (true, CRITICAL) and the only warning logged is about the first such phrase, so the
  self-harm keywords are not looked at. Otherwise the self-harm keywords are checked the
  same way, with the same result; otherwise the result is (false, NONE) and nothing is logged.
\<close>

theorem crisis_indicators_priority:
  "detect_crisis_indicators text =
     (if \<exists>p \<in> set CRISIS_PHRASES. sublist p text
      then ((True, CRITICAL),
            [Warn_crisis_indicator (hd (filter (\<lambda>p. sublist p text) CRISIS_PHRASES))])
      else if \<exists>k \<in> set SELF_HARM_KEYWORDS. sublist k text
      then ((True, CRITICAL),
            [Warn_self_harm_indicator (hd (filter (\<lambda>k. sublist k text) SELF_HARM_KEYWORDS))])
      else ((False, NONE), []))"
proof (cases "text = []")
  case True
  then show ?thesis
    using sublist_of_empty [OF phrases_nonempty(1)] sublist_of_empty [OF phrases_nonempty(2)]
    by (simp add: detect_crisis_indicators_def)
next
  case False
  show ?thesis
  proof (cases "first_contained CRISIS_PHRASES text")
    case (Some p)
    then have "\<exists>p \<in> set CRISIS_PHRASES. sublist p text"
      using first_contained_None [of CRISIS_PHRASES "text"] by simp
    with Some False first_contained_Some [OF Some] show ?thesis
      by (simp add: detect_crisis_indicators_def)
  next
    case None
    then have no: "\<not> (\<exists>p \<in> set CRISIS_PHRASES. sublist p text)"
      by (simp add: first_contained_None)
    show ?thesis
    proof (cases "first_contained SELF_HARM_KEYWORDS text")
      case (Some k)
      then have "\<exists>k \<in> set SELF_HARM_KEYWORDS. sublist k text"
        using first_contained_None [of SELF_HARM_KEYWORDS "text"] by simp
      with Some None no False first_contained_Some [OF Some] show ?thesis
        by (simp add: detect_crisis_indicators_def)
    next
      case None2: None
      then have "\<not> (\<exists>k \<in> set SELF_HARM_KEYWORDS. sublist k text)"
        by (simp add: first_contained_None)
      with None None2 no False show ?thesis
        by (simp add: detect_crisis_indicators_def)
    qed
  qed
qed

theorem crisis_indicators_priority_witness:
  "detect_crisis_indicators ''i want to die of an overdose'' =
     ((True, CRITICAL), [Warn_crisis_indicator ''i want to die'']) \<and>
   (\<exists>k \<in> set SELF_HARM_KEYWORDS. sublist k ''i want to die of an overdose'')"
  using crisis_indicators_priority [of "''i want to die of an overdose''"]
  by (simp add: CRISIS_PHRASES_def SELF_HARM_KEYWORDS_def py_in_sublist [symmetric])

section \<open>Emotion categories and the combined score\<close>

text \<open>
  Claim C4. \<^verbatim>\<open>_categorize_emotion\<close> is a function of the score whose seven bins are the
  intervals cut by -0.75, -0.25, -0.05, 0.05, 0.25 and 0.75, each boundary belonging to the
  lower bin: the bins do not overlap and leave no gap. The category never moves back when
  the score grows, and every category is taken by a score between -1 and 1, so a sweep from
  -1 to 1 passes through the seven categories in order, once each.
\<close>

theorem categorize_emotion_bins:
  "(categorize_emotion s = VERY_NEGATIVE \<longleftrightarrow> s \<le> - 0.75) \<and>
   (categorize_emotion s = NEGATIVE \<longleftrightarrow> - 0.75 < s \<and> s \<le> - 0.25) \<and>
   (categorize_emotion s = SLIGHTLY_NEGATIVE \<longleftrightarrow> - 0.25 < s \<and> s \<le> - 0.05) \<and>
   (categorize_emotion s = NEUTRAL \<longleftrightarrow> - 0.05 < s \<and> s \<le> 0.05) \<and>
   (categorize_emotion s = SLIGHTLY_POSITIVE \<longleftrightarrow> 0.05 < s \<and> s \<le> 0.25) \<and>
   (categorize_emotion s = POSITIVE \<longleftrightarrow> 0.25 < s \<and> s \<le> 0.75) \<and>
   (categorize_emotion s = VERY_POSITIVE \<longleftrightarrow> 0.75 < s) \<and>
   (s \<le> t \<longrightarrow> rank (categorize_emotion s) \<le> rank (categorize_emotion t)) \<and>
   (\<exists>x. - 1 \<le> x \<and> x \<le> 1 \<and> categorize_emotion x = c)"
proof -
  have bins:
    "(categorize_emotion s = VERY_NEGATIVE \<longleftrightarrow> s \<le> - 0.75) \<and>
     (categorize_emotion s = NEGATIVE \<longleftrightarrow> - 0.75 < s \<and> s \<le> - 0.25) \<and>
     (categorize_emotion s = SLIGHTLY_NEGATIVE \<longleftrightarrow> - 0.25 < s \<and> s \<le> - 0.05) \<and>
     (categorize_emotion s = NEUTRAL \<longleftrightarrow> - 0.05 < s \<and> s \<le> 0.05) \<and>
     (categorize_emotion s = SLIGHTLY_POSITIVE \<longleftrightarrow> 0.05 < s \<and> s \<le> 0.25) \<and>
     (categorize_emotion s = POSITIVE \<longleftrightarrow> 0.25 < s \<and> s \<le> 0.75) \<and>
     (categorize_emotion s = VERY_POSITIVE \<longleftrightarrow> 0.75 < s)"
    by (simp add: categorize_emotion_def)
  have mono: "s \<le> t \<longrightarrow> rank (categorize_emotion s) \<le> rank (categorize_emotion t)"
    by (simp add: categorize_emotion_def)
  have onto: "\<exists>x. - 1 \<le> x \<and> x \<le> 1 \<and> categorize_emotion x = c"
  proof (cases c)
    case VERY_NEGATIVE
    have "categorize_emotion (- 1) = VERY_NEGATIVE" by (simp add: categorize_emotion_def)
    with VERY_NEGATIVE show ?thesis by (intro exI [of _ "- 1"]) simp
  next
    case NEGATIVE
    have "categorize_emotion (- 0.5) = NEGATIVE" by (simp add: categorize_emotion_def)
    with NEGATIVE show ?thesis by (intro exI [of _ "- 0.5"]) simp
  next
    case SLIGHTLY_NEGATIVE
    have "categorize_emotion (- 0.1) = SLIGHTLY_NEGATIVE" by (simp add: categorize_emotion_def)
    with SLIGHTLY_NEGATIVE show ?thesis by (intro exI [of _ "- 0.1"]) simp
  next
    case NEUTRAL
    have "categorize_emotion 0 = NEUTRAL" by (simp add: categorize_emotion_def)
    with NEUTRAL show ?thesis by (intro exI [of _ 0]) simp
  next
    case SLIGHTLY_POSITIVE
    have "categorize_emotion 0.1 = SLIGHTLY_POSITIVE" by (simp add: categorize_emotion_def)
    with SLIGHTLY_POSITIVE show ?thesis by (intro exI [of _ "0.1"]) simp
  next
    case POSITIVE
    have "categorize_emotion 0.5 = POSITIVE" by (simp add: categorize_emotion_def)
    with POSITIVE show ?thesis by (intro exI [of _ "0.5"]) simp
  next
    case VERY_POSITIVE
    have "categorize_emotion 1 = VERY_POSITIVE" by (simp add: categorize_emotion_def)
    with VERY_POSITIVE show ?thesis by (intro exI [of _ 1]) simp
  qed
  from bins mono onto show ?thesis by blast
qed

theorem categorize_emotion_bins_witness:
  "(- 0.75::real) \<le> - 0.749 \<and>
   categorize_emotion (- 0.75) = VERY_NEGATIVE \<and> categorize_emotion (- 0.749) = NEGATIVE \<and>
   rank (categorize_emotion (- 0.75)) \<le> rank (categorize_emotion (- 0.749))"
  using categorize_emotion_bins [of "- 0.75" "- 0.749" NEUTRAL]
  by (simp add: categorize_emotion_def)

lemma combine_eq:
  "combine_sentiment_scores scores p = max (- 1) (min 1 (0.6 * compound_of scores + 0.4 * p))"
  by (simp add: combine_sentiment_scores_def compound_of_def Let_def mult.commute)

lemma combine_range:
  "- 1 \<le> combine_sentiment_scores scores p" "combine_sentiment_scores scores p \<le> 1"
  by (simp_all add: combine_eq)

lemma analyze_text:
  assumes "truthy v" and "isinstance_str v"
  shows "combined_sentiment_score (fst (analyze_sentiment ps tb now v)) =
           combine_sentiment_scores (ps (str_of v)) (tb (str_of v))"
    and "emotion_intensity (fst (analyze_sentiment ps tb now v)) =
           get_emotion_intensity (combine_sentiment_scores (ps (str_of v)) (tb (str_of v)))"
    and "snd (analyze_sentiment ps tb now v) =
           snd (detect_crisis_indicators (strip (lower (str_of v)))) @
             [Vader_call (str_of v), TextBlob_call (str_of v)]"
  using assms by (simp_all add: analyze_sentiment_def Let_def split_beta)

lemma analyze_default:
  assumes "\<not> truthy v \<or> \<not> isinstance_str v"
  shows "analyze_sentiment ps tb now v = (get_default_sentiment now, [Warn_invalid_input])"
  using assms by (auto simp: analyze_sentiment_def)

text \<open>
  Claim C5. The combined score is 0.6 times the VADER compound score plus 0.4 times the
  TextBlob polarity, clamped to the interval from -1 to 1, and the intensity is its absolute
  value: the combined score lies in [-1, 1] and the intensity in [0, 1]. The same holds of
  the two fields of the result of \<^verbatim>\<open>analyze_sentiment\<close> on every input, the combined
  score of an input that is not a non-empty string being 0.
\<close>

theorem combined_score_clamped:
  "combine_sentiment_scores scores p =
     max (- 1) (min 1 (0.6 * compound_of scores + 0.4 * p)) \<and>
   get_emotion_intensity (combine_sentiment_scores scores p) =
     \<bar>combine_sentiment_scores scores p\<bar> \<and>
   - 1 \<le> combine_sentiment_scores scores p \<and> combine_sentiment_scores scores p \<le> 1 \<and>
   0 \<le> get_emotion_intensity (combine_sentiment_scores scores p) \<and>
   get_emotion_intensity (combine_sentiment_scores scores p) \<le> 1 \<and>
   combined_sentiment_score (fst (analyze_sentiment ps tb now v)) =
     (if truthy v \<and> isinstance_str v
      then max (- 1) (min 1 (0.6 * compound_of (ps (str_of v)) + 0.4 * tb (str_of v)))
      else 0) \<and>
   emotion_intensity (fst (analyze_sentiment ps tb now v)) =
     \<bar>combined_sentiment_score (fst (analyze_sentiment ps tb now v))\<bar> \<and>
   - 1 \<le> combined_sentiment_score (fst (analyze_sentiment ps tb now v)) \<and>
   combined_sentiment_score (fst (analyze_sentiment ps tb now v)) \<le> 1 \<and>
   0 \<le> emotion_intensity (fst (analyze_sentiment ps tb now v)) \<and>
   emotion_intensity (fst (analyze_sentiment ps tb now v)) \<le> 1"
proof -
  have f: "combine_sentiment_scores scores p =
             max (- 1) (min 1 (0.6 * compound_of scores + 0.4 * p))"
    by (rule combine_eq)
  have i: "get_emotion_intensity (combine_sentiment_scores scores p) =
             \<bar>combine_sentiment_scores scores p\<bar>"
    by (simp add: get_emotion_intensity_def)
  have r: "- 1 \<le> combine_sentiment_scores scores p" "combine_sentiment_scores scores p \<le> 1"
    by (rule combine_range)+
  from r have ir: "0 \<le> get_emotion_intensity (combine_sentiment_scores scores p)"
      "get_emotion_intensity (combine_sentiment_scores scores p) \<le> 1"
    by (simp_all add: get_emotion_intensity_def)
  have a: "combined_sentiment_score (fst (analyze_sentiment ps tb now v)) =
      (if truthy v \<and> isinstance_str v
       then max (- 1) (min 1 (0.6 * compound_of (ps (str_of v)) + 0.4 * tb (str_of v)))
       else 0) \<and>
     emotion_intensity (fst (analyze_sentiment ps tb now v)) =
       \<bar>combined_sentiment_score (fst (analyze_sentiment ps tb now v))\<bar>"
  proof (cases "truthy v \<and> isinstance_str v")
    case True
    then have "combined_sentiment_score (fst (analyze_sentiment ps tb now v)) =
                 combine_sentiment_scores (ps (str_of v)) (tb (str_of v))"
      and "emotion_intensity (fst (analyze_sentiment ps tb now v)) =
             get_emotion_intensity (combine_sentiment_scores (ps (str_of v)) (tb (str_of v)))"
      by (simp_all add: analyze_text)
    with True show ?thesis
      by (simp only: combine_eq get_emotion_intensity_def if_True simp_thms)
  next
    case False
    then have "analyze_sentiment ps tb now v = (get_default_sentiment now, [Warn_invalid_input])"
      by (intro analyze_default) simp
    with False show ?thesis
      by (auto simp: get_default_sentiment_def)
  qed
  then have ar: "- 1 \<le> combined_sentiment_score (fst (analyze_sentiment ps tb now v))"
      "combined_sentiment_score (fst (analyze_sentiment ps tb now v)) \<le> 1"
    by (simp_all split: if_splits)
  with a have air: "0 \<le> emotion_intensity (fst (analyze_sentiment ps tb now v))"
      "emotion_intensity (fst (analyze_sentiment ps tb now v)) \<le> 1"
    by simp_all
  from f i r ir a ar air show ?thesis by blast
qed

theorem combined_score_clamped_witness:
  "truthy (PyStr ''I am very SAD'') \<and> isinstance_str (PyStr ''I am very SAD'') \<and>
   combined_sentiment_score
     (fst (analyze_sentiment (\<lambda>t. [''compound'' \<mapsto> - 2]) (\<lambda>t. 0.5) ''now''
             (PyStr ''I am very SAD''))) = - 1 \<and>
   emotion_intensity
     (fst (analyze_sentiment (\<lambda>t. [''compound'' \<mapsto> - 2]) (\<lambda>t. 0.5) ''now''
             (PyStr ''I am very SAD''))) = 1 \<and>
   combine_sentiment_scores [''compound'' \<mapsto> 0.5] (- 0.25) = 0.2"
  using combined_score_clamped [of "[''compound'' \<mapsto> 0.5]" "- 0.25"
      "\<lambda>t. [''compound'' \<mapsto> - 2]" "\<lambda>t. 0.5" "''now''" "PyStr ''I am very SAD''"]
  by (simp add: compound_of_def)

text \<open>
  Claim C6. For every input that is \<^verbatim>\<open>None\<close>, the empty string or not a string,
  \<^verbatim>\<open>analyze_sentiment\<close> returns the default result, whatever the scorers are: combined
  score 0, category NEUTRAL, intensity 0, the four mental-state flags false and no crisis.
  Neither scorer is called.
\<close>

theorem invalid_input_default:
  assumes "v = PyNone \<or> v = PyStr [] \<or> (\<forall>s. v \<noteq> PyStr s)"
  shows "analyze_sentiment ps tb now v = (get_default_sentiment now, [Warn_invalid_input]) \<and>
         combined_sentiment_score (fst (analyze_sentiment ps tb now v)) = 0 \<and>
         emotion_category (fst (analyze_sentiment ps tb now v)) =
           EmotionCategory_value NEUTRAL \<and>
         emotion_intensity (fst (analyze_sentiment ps tb now v)) = 0 \<and>
         mental_state_detected (fst (analyze_sentiment ps tb now v)) =
           \<lparr>stress_indicators = False, depression_indicators = False,
            positive_indicators = False, self_harm_indicators = False\<rparr> \<and>
         \<not> crisis_detected (fst (analyze_sentiment ps tb now v)) \<and>
         (\<forall>t. Vader_call t \<notin> set (snd (analyze_sentiment ps tb now v)) \<and>
              TextBlob_call t \<notin> set (snd (analyze_sentiment ps tb now v)))"
proof -
  have "\<not> truthy v \<or> \<not> isinstance_str v"
    using assms by (cases v) auto
  then have "analyze_sentiment ps tb now v = (get_default_sentiment now, [Warn_invalid_input])"
    by (rule analyze_default)
  then show ?thesis
    by (simp add: get_default_sentiment_def)
qed

theorem invalid_input_default_witness:
  "(\<forall>s. PyInt 7 \<noteq> PyStr s) \<and>
   analyze_sentiment (\<lambda>t. [''compound'' \<mapsto> 1]) (\<lambda>t. 1) ''now'' (PyInt 7) =
     (get_default_sentiment ''now'', [Warn_invalid_input]) \<and>
   analyze_sentiment (\<lambda>t. [''compound'' \<mapsto> 1]) (\<lambda>t. 1) ''now'' PyNone =
     (get_default_sentiment ''now'', [Warn_invalid_input]) \<and>
   analyze_sentiment (\<lambda>t. [''compound'' \<mapsto> 1]) (\<lambda>t. 1) ''now'' (PyStr []) =
     (get_default_sentiment ''now'', [Warn_invalid_input])"
proof -
  have h: "PyInt 7 = PyNone \<or> PyInt 7 = PyStr [] \<or> (\<forall>s. PyInt 7 \<noteq> PyStr s)"
    by simp
  show ?thesis
    using invalid_input_default [OF h, of "\<lambda>t. [''compound'' \<mapsto> 1]" "\<lambda>t. 1" "''now''"]
      invalid_input_default [of PyNone "\<lambda>t. [''compound'' \<mapsto> 1]" "\<lambda>t. 1" "''now''"]
      invalid_input_default [of "PyStr []" "\<lambda>t. [''compound'' \<mapsto> 1]" "\<lambda>t. 1" "''now''"]
    by simp
qed

text \<open>On a non-empty string both scorers are called, with the original text.\<close>

lemma valid_input_calls_scorers:
  "text \<noteq> [] \<Longrightarrow>
   Vader_call text \<in> set (snd (analyze_sentiment ps tb now (PyStr text))) \<and>
   TextBlob_call text \<in> set (snd (analyze_sentiment ps tb now (PyStr text)))"
  by (simp add: analyze_text)

section \<open>Mental-state flags\<close>

lemma match_here_prefix: "match_here b kw rest \<Longrightarrow> \<exists>post. rest = kw @ post"
  by (auto simp: match_here_def prefix_def)

lemma re_search_word_positions:
  "re_search_word b kw t \<longleftrightarrow>
     (\<exists>pre post. t = pre @ kw @ post \<and>
        match_here (if pre = [] then b else Some (last pre)) kw (kw @ post))"
proof (induction t arbitrary: b)
  case Nil
  show ?case
  proof
    assume "re_search_word b kw []"
    then have m: "match_here b kw []" by simp
    then have "kw = []" by (auto dest: match_here_prefix)
    with m show "\<exists>pre post. [] = pre @ kw @ post \<and>
        match_here (if pre = [] then b else Some (last pre)) kw (kw @ post)"
      by (intro exI [of _ "[]"]) simp
  next
    assume "\<exists>pre post. [] = pre @ kw @ post \<and>
        match_here (if pre = [] then b else Some (last pre)) kw (kw @ post)"
    then show "re_search_word b kw []" by auto
  qed
next
  case (Cons c cs)
  show ?case
  proof
    assume "re_search_word b kw (c # cs)"
    then consider "match_here b kw (c # cs)" | "re_search_word (Some c) kw cs"
      by auto
    then show "\<exists>pre post. c # cs = pre @ kw @ post \<and>
        match_here (if pre = [] then b else Some (last pre)) kw (kw @ post)"
    proof cases
      case 1
      then obtain post where p: "c # cs = kw @ post" by (auto dest: match_here_prefix)
      with 1 have "c # cs = [] @ kw @ post \<and>
          match_here (if [] = [] then b else Some (last [])) kw (kw @ post)"
        by simp
      then show ?thesis by blast
    next
      case 2
      then obtain pre post where p: "cs = pre @ kw @ post"
        and m: "match_here (if pre = [] then Some c else Some (last pre)) kw (kw @ post)"
        using Cons.IH [of "Some c"] by blast
      have "c # cs = (c # pre) @ kw @ post \<and>
          match_here (if c # pre = [] then b else Some (last (c # pre))) kw (kw @ post)"
        using p m by (cases pre) simp_all
      then show ?thesis by blast
    qed
  next
    assume "\<exists>pre post. c # cs = pre @ kw @ post \<and>
        match_here (if pre = [] then b else Some (last pre)) kw (kw @ post)"
    then obtain pre post where p: "c # cs = pre @ kw @ post"
      and m: "match_here (if pre = [] then b else Some (last pre)) kw (kw @ post)"
      by blast
    show "re_search_word b kw (c # cs)"
    proof (cases pre)
      case Nil
      with p m have "match_here b kw (c # cs)" by simp
      then show ?thesis by simp
    next
      case (Cons d pre')
      with p have c: "d = c" and cs: "cs = pre' @ kw @ post" by simp_all
      from m Cons have "match_here (if pre' = [] then Some c else Some (last pre')) kw (kw @ post)"
        by (cases pre') (simp_all add: c)
      with cs have "re_search_word (Some c) kw cs"
        using Cons.IH [of "Some c"] by blast
      then show ?thesis by simp
    qed
  qed
qed

lemma match_here_word_keyword:
  assumes "word_keyword kw"
  shows "match_here b kw (kw @ post) \<longleftrightarrow> \<not> is_word b \<and> \<not> is_word (first_char post)"
proof -
  from assms obtain c cs where kw: "kw = c # cs" and "is_word_char c"
    by (cases kw) (auto simp: word_keyword_def)
  with assms show ?thesis
    by (auto simp: match_here_def word_boundary_def word_keyword_def)
qed

lemma is_word_last: "is_word (if pre = [] then None else Some (last pre)) \<longleftrightarrow>
    \<not> (pre = [] \<or> \<not> is_word_char (last pre))"
  by simp

lemma is_word_first: "is_word (first_char post) \<longleftrightarrow> \<not> (post = [] \<or> \<not> is_word_char (hd post))"
  by (cases post) simp_all

lemma re_search_word_iff:
  assumes "word_keyword kw"
  shows "re_search_word None kw t = occurs_as_words kw t"
  unfolding re_search_word_positions occurs_as_words_def
    match_here_word_keyword [OF assms] is_word_last is_word_first
  by simp

lemma has_keyword_iff:
  "has_keyword t kws \<longleftrightarrow> (\<exists>kw \<in> set kws. re_search_word None kw t)"
  by (induction kws) auto

lemma has_keyword_words:
  assumes "list_all word_keyword kws"
  shows "has_keyword t kws \<longleftrightarrow> (\<exists>kw \<in> set kws. occurs_as_words kw t)"
  using assms by (auto simp: has_keyword_iff list_all_iff re_search_word_iff)

lemma keyword_lists_words:
  "list_all word_keyword STRESS_KEYWORDS"
  "list_all word_keyword DEPRESSION_KEYWORDS"
  "list_all word_keyword POSITIVE_KEYWORDS"
  "list_all word_keyword SELF_HARM_KEYWORDS"
  by (simp_all add: STRESS_KEYWORDS_def DEPRESSION_KEYWORDS_def POSITIVE_KEYWORDS_def
      SELF_HARM_KEYWORDS_def word_keyword_def is_word_char_def)

text \<open>
  The flags for stress, depression and positive mood are set by word-boundary matching; the
  flag for self-harm is set by substring containment.
\<close>

lemma mental_state_flags:
  "stress_indicators (detect_mental_state t) \<longleftrightarrow>
     (\<exists>kw \<in> set STRESS_KEYWORDS. occurs_as_words kw t)"
  "depression_indicators (detect_mental_state t) \<longleftrightarrow>
     (\<exists>kw \<in> set DEPRESSION_KEYWORDS. occurs_as_words kw t)"
  "positive_indicators (detect_mental_state t) \<longleftrightarrow>
     (\<exists>kw \<in> set POSITIVE_KEYWORDS. occurs_as_words kw t)"
  "self_harm_indicators (detect_mental_state t) \<longleftrightarrow>
     (\<exists>kw \<in> set SELF_HARM_KEYWORDS. sublist kw t)"
  by (simp_all add: detect_mental_state_def has_keyword_words keyword_lists_words
      list_ex_iff py_in_sublist)

text \<open>
  Claim C7. Each of the four mental-state flags is to be set by word-boundary matching. The
  flag for self-harm is not: in the text below, ``hanging'' is only a part of the word
  ``changing'' and no self-harm keyword occurs as whole words, yet the flag is set; the
  same text does not set the flag when the keywords are matched as the other three lists are.
\<close>

theorem self_harm_flag_substring:
  "self_harm_indicators (detect_mental_state ''i am changing schools'') \<and>
   \<not> (\<exists>kw \<in> set SELF_HARM_KEYWORDS. occurs_as_words kw ''i am changing schools'') \<and>
   \<not> has_keyword ''i am changing schools'' SELF_HARM_KEYWORDS"
proof -
  have a: "self_harm_indicators (detect_mental_state ''i am changing schools'')"
    by (simp add: detect_mental_state_def SELF_HARM_KEYWORDS_def)
  have b: "\<not> has_keyword ''i am changing schools'' SELF_HARM_KEYWORDS"
    by (simp add: SELF_HARM_KEYWORDS_def match_here_def word_boundary_def is_word_char_def)
  then have "\<not> (\<exists>kw \<in> set SELF_HARM_KEYWORDS. occurs_as_words kw ''i am changing schools'')"
    by (simp add: has_keyword_words [OF keyword_lists_words(4)])
  with a b show ?thesis by simp
qed

section \<open>Escalation by the orchestrator\<close>

lemma process_user_message_is_crisis:
  "is_crisis (fst (process_user_message self now uid msg)) =
     fst (detect_crisis (crisis_handler self) msg
            (combined_sentiment_score
               (fst (analyze_sentiment (polarity_scores self) (textblob self) now (PyStr msg)))))"
  by (simp add: process_user_message_def get_crisis_response_def Let_def split_beta)

lemma process_user_message_response:
  "response (fst (process_user_message self now uid msg)) =
     (if is_crisis (fst (process_user_message self now uid msg))
      then Some (Crisis_text
             (format_crisis_response
                (fst (snd (detect_crisis (crisis_handler self) msg
                   (combined_sentiment_score (fst (analyze_sentiment (polarity_scores self)
                      (textblob self) now (PyStr msg)))))))
                (snd (snd (detect_crisis (crisis_handler self) msg
                   (combined_sentiment_score (fst (analyze_sentiment (polarity_scores self)
                      (textblob self) now (PyStr msg)))))))))
      else Some (Generated_text
             (generate_response self msg
                (match_emotion_precisely (primary_emotion (classify_emotion self msg)) msg)
                (extract_topic msg))))"
  by (simp add: process_user_message_def get_crisis_response_def Let_def split_beta)

lemma process_user_message_sentiment:
  "sentiment (fst (process_user_message self now uid msg)) =
     fst (analyze_sentiment (polarity_scores self) (textblob self) now (PyStr msg))"
  "row_is_crisis (snd (process_user_message self now uid msg)) =
     (if crisis_detected (fst (analyze_sentiment (polarity_scores self) (textblob self) now
        (PyStr msg))) then 1 else 0)"
  by (simp_all add: process_user_message_def save_conversation_def Let_def split_beta)

text \<open>
  The escalation is not the union of the two crisis checks: on the message below the
  analyzer finds the crisis phrase ``i am suicidal'', no configured keyword of the crisis
  handler occurs in it, and the orchestrator does not escalate.
\<close>

theorem escalation_not_union_counterexample:
  "\<not> (is_crisis (fst (process_user_message sample_chatbot ''now'' ''u1'' ''I am suicidal''))
      \<longleftrightarrow>
      crisis_detected
        (sentiment (fst (process_user_message sample_chatbot ''now'' ''u1'' ''I am suicidal'')))
      \<or> fst (detect_crisis CrisisHandler_init ''I am suicidal''
             (combined_sentiment_score
                (sentiment
                   (fst (process_user_message sample_chatbot ''now'' ''u1''
                           ''I am suicidal''))))))"
proof -
  have s: "fst (analyze_sentiment (polarity_scores sample_chatbot) (textblob sample_chatbot)
                 ''now'' (PyStr ''I am suicidal'')) =
           \<lparr>raw_text = ''I am suicidal'', text_normalized = ''i am suicidal'',
            vader_scores = [''compound'' \<mapsto> - 0.5], textblob_polarity = - 0.5,
            combined_sentiment_score = - 0.5, emotion_category = ''negative'',
            emotion_intensity = 0.5,
            mental_state_detected = detect_mental_state ''i am suicidal'',
            crisis_detected = True, crisis_severity = ''critical'',
            analysis_timestamp = ''now''\<rparr>"
    by (simp add: analyze_sentiment_def sample_chatbot_def HybridMentalHealthChatbot_init_def
        lower_def lower_char_def strip_def is_space_def detect_crisis_indicators_def
        CRISIS_PHRASES_def combine_sentiment_scores_def categorize_emotion_def
        get_emotion_intensity_def Let_def)
  have c: "\<not> fst (detect_crisis CrisisHandler_init ''I am suicidal'' x)" for x
    by (simp add: detect_crisis_def CrisisHandler_init_def CRISIS_KEYWORDS_def
        lower_def lower_char_def)
  have h: "crisis_handler sample_chatbot = CrisisHandler_init"
    by (simp add: sample_chatbot_def HybridMentalHealthChatbot_init_def)
  show ?thesis
    by (simp add: process_user_message_is_crisis process_user_message_sentiment s c h)
qed

text \<open>
  Claim C1, amended. For every message, the orchestrator escalates to a crisis response
  exactly when the weighted decision of the crisis handler, computed from the message and
  the combined sentiment score of the analyzer, is true. The phrase and keyword check of the
  analyzer takes no part in it: it sets the field \<^verbatim>\<open>crisis_detected\<close> of the sentiment result
  and, from it, the flag \<^verbatim>\<open>is_crisis\<close> of the stored conversation row.
\<close>

theorem escalation_is_weighted_decision:
  "(is_crisis (fst (process_user_message self now uid msg)) \<longleftrightarrow>
      fst (detect_crisis (crisis_handler self) msg
             (combined_sentiment_score
                (fst (analyze_sentiment (polarity_scores self) (textblob self) now
                        (PyStr msg)))))) \<and>
   (is_crisis (fst (process_user_message self now uid msg)) \<longleftrightarrow>
      (\<exists>tier. response (fst (process_user_message self now uid msg)) =
                Some (Crisis_text tier))) \<and>
   sentiment (fst (process_user_message self now uid msg)) =
     fst (analyze_sentiment (polarity_scores self) (textblob self) now (PyStr msg)) \<and>
   row_is_crisis (snd (process_user_message self now uid msg)) =
     (if crisis_detected (sentiment (fst (process_user_message self now uid msg)))
      then 1 else 0)"
proof (intro conjI)
  show "is_crisis (fst (process_user_message self now uid msg)) \<longleftrightarrow>
      fst (detect_crisis (crisis_handler self) msg
             (combined_sentiment_score
                (fst (analyze_sentiment (polarity_scores self) (textblob self) now
                        (PyStr msg)))))"
    by (rule process_user_message_is_crisis)
  show "is_crisis (fst (process_user_message self now uid msg)) \<longleftrightarrow>
      (\<exists>tier. response (fst (process_user_message self now uid msg)) =
                Some (Crisis_text tier))"
    by (simp add: process_user_message_response)
  show "sentiment (fst (process_user_message self now uid msg)) =
     fst (analyze_sentiment (polarity_scores self) (textblob self) now (PyStr msg))"
    by (rule process_user_message_sentiment)
  show "row_is_crisis (snd (process_user_message self now uid msg)) =
     (if crisis_detected (sentiment (fst (process_user_message self now uid msg)))
      then 1 else 0)"
    by (simp only: process_user_message_sentiment)
qed

theorem escalation_is_weighted_decision_witness:
  "is_crisis (fst (process_user_message sample_chatbot ''now'' ''u1'' ''I want to die'')) \<and>
   response (fst (process_user_message sample_chatbot ''now'' ''u1'' ''I want to die'')) =
     Some (Crisis_text IMMEDIATE_SUPPORT_NEEDED)"
proof -
  have h: "crisis_handler sample_chatbot = CrisisHandler_init"
    by (simp add: sample_chatbot_def HybridMentalHealthChatbot_init_def)
  have d: "detect_crisis CrisisHandler_init ''I want to die'' s =
             (True, if s < - 0.7 then 1 else 0.9, [(''want to die'', 0.9)])" for s
    by (simp add: detect_crisis_def CrisisHandler_init_def CRISIS_KEYWORDS_def
        lower_def lower_char_def Let_def)
  show ?thesis
    using escalation_is_weighted_decision [of sample_chatbot "''now''" "''u1''" "''I want to die''"]
    by (simp add: h d process_user_message_response format_crisis_response_def)
qed

section \<open>Mood tracking of a session\<close>

lemma record_mood_fields:
  "mood_log (record_mood now d s) = mood_log s @ [snapshot (now, d)]"
  "initial_mood (record_mood now d s) =
     (case initial_mood s of None \<Rightarrow> Some (snapshot (now, d)) | Some m \<Rightarrow> Some m)"
  "current_mood (record_mood now d s) = Some (snapshot (now, d))"
  "conversation_history (record_mood now d s) = conversation_history s"
  by (simp_all add: record_mood_def snapshot_def Let_def split: option.splits)

lemma record_moods_fields:
  "mood_log (record_moods calls s) = mood_log s @ map snapshot calls"
  "initial_mood (record_moods calls s) =
     (case initial_mood s of
        None \<Rightarrow> (if calls = [] then None else Some (snapshot (hd calls)))
      | Some m \<Rightarrow> Some m)"
  "current_mood (record_moods calls s) =
     (if calls = [] then current_mood s else Some (snapshot (last calls)))"
  "conversation_history (record_moods calls s) = conversation_history s"
proof (induction calls arbitrary: s)
  case Nil
  {
    case 1 show ?case by simp
  next
    case 2 show ?case by (simp split: option.splits)
  next
    case 3 show ?case by simp
  next
    case 4 show ?case by simp
  }
next
  case (Cons c calls)
  obtain now d where c: "c = (now, d)" by (cases c)
  {
    case 1 show ?case by (simp add: c Cons.IH record_mood_fields)
  next
    case 2 show ?case by (simp add: c Cons.IH record_mood_fields split: option.splits)
  next
    case 3 show ?case by (simp add: c Cons.IH record_mood_fields)
  next
    case 4 show ?case by (simp add: c Cons.IH record_mood_fields)
  }
qed

text \<open>
  On a fresh session, the initial mood is the first snapshot recorded and is never
  overwritten, and the current mood is the last one. \<^verbatim>\<open>get_mood_change\<close> returns
  \<^verbatim>\<open>{'change': 0, 'improved': False}\<close> when nothing was recorded; otherwise, when both
  snapshots carry a score, it returns the current score minus the initial score, with
  \<^verbatim>\<open>improved\<close> true exactly when this difference is positive.
\<close>

lemma mood_change_of_fresh_session:
  "initial_mood (record_moods calls (UserSession_init sid uid t0)) =
     (if calls = [] then None else Some (snapshot (hd calls)))"
  "current_mood (record_moods calls (UserSession_init sid uid t0)) =
     (if calls = [] then None else Some (snapshot (last calls)))"
  "get_mood_change (record_moods calls (UserSession_init sid uid t0)) =
     (if calls = [] then Inr (No_mood 0 False)
      else case py_sub (get_combined_sentiment_score (snd (last calls)))
                       (get_combined_sentiment_score (snd (hd calls))) of
             Inl e \<Rightarrow> Inl e
           | Inr change \<Rightarrow>
               Inr (Mood_change (get_emotion_category (snd (hd calls)))
                      (get_emotion_category (snd (last calls))) change (change > 0) 0))"
  by (simp_all add: get_mood_change_def record_moods_fields UserSession_init_def snapshot_def
      split: sum.splits)

lemma mood_change_with_scores:
  assumes "calls \<noteq> []"
    and "get_combined_sentiment_score (snd (hd calls)) = Some i"
    and "get_combined_sentiment_score (snd (last calls)) = Some c"
  shows "get_mood_change (record_moods calls (UserSession_init sid uid t0)) =
           Inr (Mood_change (get_emotion_category (snd (hd calls)))
                  (get_emotion_category (snd (last calls))) (c - i) (c - i > 0) 0)"
  using assms by (simp add: mood_change_of_fresh_session)

text \<open>
  Claim C8. After \<^verbatim>\<open>record_mood\<close> calls on a fresh session, \<^verbatim>\<open>get_mood_change\<close> is to return
  the current score minus the initial score. When the mood data carry no
  \<^verbatim>\<open>combined_sentiment_score\<close>, the snapshot stores \<^verbatim>\<open>None\<close> under the key
  \<^verbatim>\<open>sentiment_score\<close>; the default of \<^verbatim>\<open>.get('sentiment_score', 0)\<close> is then not used, since the
  key is there, and the subtraction raises \<^verbatim>\<open>TypeError\<close>.
\<close>

theorem mood_change_without_score:
  "get_mood_change
     (record_mood ''t1''
        \<lparr>get_emotion_category = Some ''neutral'', get_combined_sentiment_score = None,
         get_crisis_detected = None, get_mental_state_detected = None\<rparr>
        (UserSession_init ''s1'' ''u1'' ''t0'')) = Inl TypeError"
  by (simp add: get_mood_change_def record_mood_def UserSession_init_def Let_def)

section \<open>End of a chat session\<close>

text \<open>
  A session that was started with the initial sentiment \<^verbatim>\<open>None\<close> is found by its id, yet
  ending it returns \<^verbatim>\<open>None\<close> and stores nothing: the subtraction raises \<^verbatim>\<open>TypeError\<close>,
  which the \<^verbatim>\<open>except\<close> clause turns into \<^verbatim>\<open>None\<close>.
\<close>

theorem end_chat_session_null_counterexample:
  "null_start_db 1 \<noteq> None \<and>
   end_chat_session null_start_db ''t1'' 1 (Some ''calm'') (Some 0.5) = (null_start_db, None)"
  by (simp add: null_start_db_def start_chat_session_def end_chat_session_def)

text \<open>
  Claim C9, amended. When the session id is found and both the stored initial sentiment and
  the final sentiment are numbers, \<^verbatim>\<open>end_chat_session\<close> stores the end of the session with
  the mood improvement, which is the final minus the initial sentiment, and returns it with
  three flags: improved when it is above 0.1, stable when it is within 0.1 of zero, declined
  when it is below -0.1; exactly one of the three holds. When the id is not found, or is
  found with a sentiment that is not a number, it returns \<^verbatim>\<open>None\<close> and the table is unchanged.
\<close>

theorem end_chat_session_result:
  "(db sid = Some row \<and> initial_sentiment row = Some i \<longrightarrow>
      end_chat_session db now sid fe (Some f) =
        (db(sid \<mapsto> row\<lparr>session_end := Some now, final_emotion := fe,
                       final_sentiment := Some f, mood_improvement := Some (f - i)\<rparr>),
         Some \<lparr>improvement = f - i, improved = (f - i > 0.1),
               stable = (\<bar>f - i\<bar> \<le> 0.1), declined = (f - i < - 0.1)\<rparr>) \<and>
      ((f - i > 0.1 \<and> \<not> \<bar>f - i\<bar> \<le> 0.1 \<and> \<not> f - i < - 0.1) \<or>
       (\<not> f - i > 0.1 \<and> \<bar>f - i\<bar> \<le> 0.1 \<and> \<not> f - i < - 0.1) \<or>
       (\<not> f - i > 0.1 \<and> \<not> \<bar>f - i\<bar> \<le> 0.1 \<and> f - i < - 0.1))) \<and>
   (db sid = None \<longrightarrow> end_chat_session db now sid fe fs = (db, None)) \<and>
   (db sid = Some row \<and> (initial_sentiment row = None \<or> fs = None) \<longrightarrow>
      end_chat_session db now sid fe fs = (db, None))"
proof (intro conjI impI)
  assume a: "db sid = Some row \<and> initial_sentiment row = Some i"
  have "(- 0.1 \<le> f - i \<and> f - i \<le> 0.1) = (\<bar>f - i\<bar> \<le> 0.1)"
    by linarith
  with a show "end_chat_session db now sid fe (Some f) =
        (db(sid \<mapsto> row\<lparr>session_end := Some now, final_emotion := fe,
                       final_sentiment := Some f, mood_improvement := Some (f - i)\<rparr>),
         Some \<lparr>improvement = f - i, improved = (f - i > 0.1),
               stable = (\<bar>f - i\<bar> \<le> 0.1), declined = (f - i < - 0.1)\<rparr>)"
    by (simp add: end_chat_session_def)
  show "(f - i > 0.1 \<and> \<not> \<bar>f - i\<bar> \<le> 0.1 \<and> \<not> f - i < - 0.1) \<or>
       (\<not> f - i > 0.1 \<and> \<bar>f - i\<bar> \<le> 0.1 \<and> \<not> f - i < - 0.1) \<or>
       (\<not> f - i > 0.1 \<and> \<not> \<bar>f - i\<bar> \<le> 0.1 \<and> f - i < - 0.1)"
    by linarith
next
  assume "db sid = None"
  then show "end_chat_session db now sid fe fs = (db, None)"
    by (simp add: end_chat_session_def)
next
  assume a: "db sid = Some row \<and> (initial_sentiment row = None \<or> fs = None)"
  then have "py_sub fs (initial_sentiment row) = Inl TypeError"
    by (cases fs; cases "initial_sentiment row") auto
  with a show "end_chat_session db now sid fe fs = (db, None)"
    by (simp add: end_chat_session_def)
qed

theorem end_chat_session_result_witness:
  "fst (start_chat_session Map.empty ''t0'' 1 ''u1'' (Some ''sad'') (Some 0.2)) 1 \<noteq> None \<and>
   snd (end_chat_session
          (fst (start_chat_session Map.empty ''t0'' 1 ''u1'' (Some ''sad'') (Some 0.2)))
          ''t1'' 1 (Some ''calm'') (Some 0.5)) =
     Some \<lparr>improvement = 0.3, improved = True, stable = False, declined = False\<rparr> \<and>
   snd (end_chat_session
          (fst (start_chat_session Map.empty ''t0'' 1 ''u1'' (Some ''sad'') (Some 0.2)))
          ''t1'' 1 (Some ''calm'') (Some 0.25)) =
     Some \<lparr>improvement = 0.05, improved = False, stable = True, declined = False\<rparr> \<and>
   end_chat_session
          (fst (start_chat_session Map.empty ''t0'' 1 ''u1'' (Some ''sad'') (Some 0.2)))
          ''t1'' 2 (Some ''calm'') (Some 0.5) =
     (fst (start_chat_session Map.empty ''t0'' 1 ''u1'' (Some ''sad'') (Some 0.2)), None)"
proof -
  let ?row = "\<lparr>owner_user_id = ''u1'', session_start = ''t0'', session_end = None,
            initial_emotion = Some ''sad'', initial_sentiment = Some 0.2,
            final_emotion = None, final_sentiment = None, mood_improvement = None,
            message_count = 0\<rparr>"
  let ?db = "fst (start_chat_session Map.empty ''t0'' 1 ''u1'' (Some ''sad'') (Some 0.2))"
  have r: "?db 1 = Some ?row" and n: "?db 2 = None" and s: "initial_sentiment ?row = Some 0.2"
    by (simp_all add: start_chat_session_def)
  show ?thesis
    using r n
      end_chat_session_result [of ?db 1 ?row "0.2" "''t1''" "Some ''calm''" "0.5" "Some 0.5"]
      end_chat_session_result [of ?db 1 ?row "0.2" "''t1''" "Some ''calm''" "0.25" "Some 0.5"]
      end_chat_session_result [of ?db 2 ?row "0.2" "''t1''" "Some ''calm''" "0.5" "Some 0.5"]
    by (simp del: fun_upd_apply)
qed

end
